theory Spec2Isabelle
  imports Main "HOL-Library.Sublist"
begin

section \<open>Strings\<close>

text \<open>
  A JavaScript string is modelled as a \<^typ>\<open>string\<close>, the list of its code units. The
  functions below inspect only the space, the line feed, the backslash, the colon, the
  single quote, the comma and the full stop; every other unit is passed through untouched.
\<close>

abbreviation SP :: char where "SP \<equiv> CHR 0x20"
abbreviation LF :: char where "LF \<equiv> CHR 0x0A"
abbreviation BSL :: char where "BSL \<equiv> CHR 0x5C"
abbreviation QUOTE :: char where "QUOTE \<equiv> CHR 0x27"
abbreviation COLON :: char where "COLON \<equiv> CHR 0x3A"
abbreviation COMMA :: char where "COMMA \<equiv> CHR 0x2C"
abbreviation DOT :: char where "DOT \<equiv> CHR 0x2E"

text \<open>
  \<^verbatim>\<open>text.split(sep)\<close> for a separator of one unit: the pieces between the separators,
  always at least one piece (the empty string gives one empty piece).
\<close>

fun split_on :: "char \<Rightarrow> string \<Rightarrow> string list" where
  "split_on sep [] = [[]]"
| "split_on sep (c # cs) =
     (if c = sep then [] # split_on sep cs
      else (case split_on sep cs of
              [] \<Rightarrow> [[c]]
            | w # ws \<Rightarrow> (c # w) # ws))"

text \<open>\<^verbatim>\<open>lines.join(sep)\<close>.\<close>

fun join :: "string \<Rightarrow> string list \<Rightarrow> string" where
  "join sep [] = []"
| "join sep [x] = x"
| "join sep (x # y # ys) = x @ sep @ join sep (y # ys)"

text \<open>
  \<^verbatim>\<open>text.replace(/c/g, r)\<close> for a pattern that matches the single unit \<open>c\<close>: every
  occurrence is replaced, left to right, and the replacement text is not scanned again.
\<close>

definition replace_all :: "char \<Rightarrow> string \<Rightarrow> string \<Rightarrow> string" where
  "replace_all c r s = concat (map (\<lambda>x. if x = c then r else [x]) s)"

section \<open>wrapText\<close>

text \<open>
  The loop of \<^verbatim>\<open>wrapText\<close> in \<^verbatim>\<open>server.js\<close>, over the words from index 1 on, with the
  variables \<open>lines\<close> and \<open>currentLine\<close> as arguments; the value is \<open>lines\<close> after the
  final push. The test measures the concatenated candidate line.
\<close>

fun wrapText_loop :: "int \<Rightarrow> string list \<Rightarrow> string \<Rightarrow> string list \<Rightarrow> string list" where
  "wrapText_loop maxLength lines currentLine [] = lines @ [currentLine]"
| "wrapText_loop maxLength lines currentLine (w # ws) =
     (if int (length (currentLine @ [SP] @ w)) \<le> maxLength
      then wrapText_loop maxLength lines (currentLine @ [SP] @ w) ws
      else wrapText_loop maxLength (lines @ [currentLine]) w ws)"

text \<open>
  \<^verbatim>\<open>split\<close> never returns an empty array, so \<^verbatim>\<open>words[0]\<close> is always a string; the
  first case is kept for totality (an \<^verbatim>\<open>undefined\<close> line joins to the empty string).
\<close>

definition wrapText :: "string \<Rightarrow> int \<Rightarrow> string" where
  "wrapText text maxLength =
     (case split_on SP text of
        [] \<Rightarrow> []
      | w0 # ws \<Rightarrow> join [LF] (wrapText_loop maxLength [] w0 ws))"

text \<open>
  The loop of the two other variants of the service: the test adds the two lengths and one.
\<close>

fun wrapText_loop_sum :: "int \<Rightarrow> string list \<Rightarrow> string \<Rightarrow> string list \<Rightarrow> string list" where
  "wrapText_loop_sum maxLength lines currentLine [] = lines @ [currentLine]"
| "wrapText_loop_sum maxLength lines currentLine (w # ws) =
     (if int (length currentLine) + int (length w) + 1 \<le> maxLength
      then wrapText_loop_sum maxLength lines (currentLine @ [SP] @ w) ws
      else wrapText_loop_sum maxLength (lines @ [currentLine]) w ws)"

definition wrapText_sum :: "string \<Rightarrow> int \<Rightarrow> string" where
  "wrapText_sum text maxLength =
     (case split_on SP text of
        [] \<Rightarrow> []
      | w0 # ws \<Rightarrow> join [LF] (wrapText_loop_sum maxLength [] w0 ws))"

text \<open>
  The rule as the specification words it: a token is appended to the current line iff
  \<open>len(currentLine) + 1 + len(token) \<le> maxLineLength\<close>.
\<close>

definition spec_appends :: "int \<Rightarrow> string \<Rightarrow> string \<Rightarrow> bool" where
  "spec_appends maxLineLength currentLine token \<longleftrightarrow>
     int (length currentLine) + 1 + int (length token) \<le> maxLineLength"

fun spec_wrap_loop :: "int \<Rightarrow> string list \<Rightarrow> string \<Rightarrow> string list \<Rightarrow> string list" where
  "spec_wrap_loop maxLineLength lines currentLine [] = lines @ [currentLine]"
| "spec_wrap_loop maxLineLength lines currentLine (token # rest) =
     (if spec_appends maxLineLength currentLine token
      then spec_wrap_loop maxLineLength lines (currentLine @ [SP] @ token) rest
      else spec_wrap_loop maxLineLength (lines @ [currentLine]) token rest)"

definition spec_wrap :: "string \<Rightarrow> int \<Rightarrow> string" where
  "spec_wrap text maxLineLength =
     (case split_on SP text of
        [] \<Rightarrow> []
      | w0 # ws \<Rightarrow> join [LF] (spec_wrap_loop maxLineLength [] w0 ws))"

section \<open>escapeText\<close>

text \<open>
  \<^verbatim>\<open>escapeText\<close> of \<^verbatim>\<open>server.js\<close>: six global replacements, applied in the order of
  the source (the innermost call below is the first one applied): backslash, colon, comma,
  full stop, single quote, line feed.
\<close>

definition escapeText :: "string \<Rightarrow> string" where
  "escapeText text =
     replace_all LF [BSL, CHR ''n'']
       (replace_all QUOTE [BSL, QUOTE]
         (replace_all DOT [BSL, DOT]
           (replace_all COMMA [BSL, COMMA]
             (replace_all COLON [BSL, COLON]
               (replace_all BSL [BSL, BSL] text)))))"

text \<open>
  \<^verbatim>\<open>escapeText\<close> of the first other variant (wrap width 50): backslash, colon and single
  quote only, and the result is returned between two single quotes.
\<close>

definition escapeText_A :: "string \<Rightarrow> string" where
  "escapeText_A text =
     [QUOTE] @
     replace_all QUOTE [BSL, QUOTE]
       (replace_all COLON [BSL, COLON]
         (replace_all BSL [BSL, BSL] text))
     @ [QUOTE]"

text \<open>
  \<^verbatim>\<open>escapeText\<close> of the second other variant (system font path): backslash, colon,
  single quote, line feed; no surrounding quotes.
\<close>

definition escapeText_B :: "string \<Rightarrow> string" where
  "escapeText_B text =
     replace_all LF [BSL, CHR ''n'']
       (replace_all QUOTE [BSL, QUOTE]
         (replace_all COLON [BSL, COLON]
           (replace_all BSL [BSL, BSL] text)))"

text \<open>
  The mapping as the specification gives it, one input unit at a time: backslash to two
  backslashes, colon to backslash-colon, single quote to backslash-quote, line feed to
  backslash-n where the profile escapes line feeds, comma and full stop to
  backslash-comma and backslash-stop where the profile escapes them; any other unit stays.
\<close>

definition escaped_unit :: "bool \<Rightarrow> bool \<Rightarrow> char \<Rightarrow> string" where
  "escaped_unit comma_period line_feed c =
     (if c = BSL then [BSL, BSL]
      else if c = COLON then [BSL, COLON]
      else if c = QUOTE then [BSL, QUOTE]
      else if line_feed \<and> c = LF then [BSL, CHR ''n'']
      else if comma_period \<and> (c = COMMA \<or> c = DOT) then [BSL, c]
      else [c])"

text \<open>
  A text has no unescaped backslash, colon or single quote when, read from the left, every
  backslash takes the unit after it as its escaped partner, and no colon or single quote
  is met outside such a pair. A backslash at the very end has no partner and is unescaped.
\<close>

fun no_unescaped :: "string \<Rightarrow> bool" where
  "no_unescaped [] = True"
| "no_unescaped [c] = (c \<noteq> BSL \<and> c \<noteq> COLON \<and> c \<noteq> QUOTE)"
| "no_unescaped (c # d # cs) =
     (if c = BSL then no_unescaped cs
      else c \<noteq> COLON \<and> c \<noteq> QUOTE \<and> no_unescaped (d # cs))"

text \<open>
  Modelled from the spec: the unescaping done by the consumer of the text option (the
  external media tool) is not part of the repository. The specification describes it as
  interpreting each backslash-introduced pair back to its source character: a backslash
  and the unit after it are read as that unit, except that backslash-n is read as a line
  feed; every other unit is read as itself.
\<close>

fun unescape :: "string \<Rightarrow> string" where
  "unescape [] = []"
| "unescape [c] = [c]"
| "unescape (c # d # cs) =
     (if c = BSL then (if d = CHR ''n'' then LF else d) # unescape cs
      else c # unescape (d # cs))"

section \<open>The text block and the media command\<close>

text \<open>
  \<^verbatim>\<open>textData\<close>: the four form fields. A field of the object may be absent
  (\<^verbatim>\<open>undefined\<close>), which is \<open>None\<close>; the destructuring in
  \<^verbatim>\<open>processVideoWithBackground\<close> then takes the empty string.
\<close>

record textData =
  doctorName :: "string option"
  degree :: "string option"
  mobile :: "string option"
  address :: "string option"

definition or_default :: "string option \<Rightarrow> string \<Rightarrow> string" where
  "or_default v d = (case v of None \<Rightarrow> d | Some s \<Rightarrow> s)"

text \<open>
  \<^verbatim>\<open>textBlock\<close> of \<^verbatim>\<open>server.js\<close>; \<^verbatim>\<open>wrapText\<close> is called without a width and takes
  its default, 30.
\<close>

definition textBlock :: "textData \<Rightarrow> string" where
  "textBlock textData =
     [QUOTE] @
     escapeText
       (wrapText (''Doctor: '' @ or_default (doctorName textData) []) 30 @ [LF] @
        wrapText (''Mobile: '' @ or_default (mobile textData) []) 30 @ [LF] @
        wrapText (''Address: '' @ or_default (address textData) []) 30 @ [LF] @
        wrapText (''Degree: '' @ or_default (degree textData) []) 30)
     @ [QUOTE]"

text \<open>\<^verbatim>\<open>textBlock\<close> of the quoting variant; the default width is 50.\<close>

definition textBlock_A :: "textData \<Rightarrow> string" where
  "textBlock_A textData =
     (let wrappedDoctorName = wrapText_sum (''Doctor: '' @ or_default (doctorName textData) []) 50;
          wrappedMobile = wrapText_sum (''Mobile: '' @ or_default (mobile textData) []) 50;
          wrappedAddress = wrapText_sum (''Address: '' @ or_default (address textData) []) 50;
          wrappedDegree = wrapText_sum (''Degree: '' @ or_default (degree textData) []) 50
      in escapeText_A
           (wrappedDoctorName @ [LF] @ wrappedMobile @ [LF] @ wrappedAddress @ [LF]
            @ wrappedDegree))"

text \<open>\<^verbatim>\<open>textBlock\<close> of the system-font variant; the default width is 30.\<close>

definition textBlock_B :: "textData \<Rightarrow> string" where
  "textBlock_B textData =
     (let wrappedDoctorName = wrapText_sum (''Doctor: '' @ or_default (doctorName textData) []) 30;
          wrappedDegree = wrapText_sum (''Degree: '' @ or_default (degree textData) []) 30;
          wrappedMobile = wrapText_sum (''Mobile: '' @ or_default (mobile textData) []) 30;
          wrappedAddress = wrapText_sum (''Address: '' @ or_default (address textData) []) 30;
          rawTextBlock =
            wrappedDoctorName @ [LF] @ wrappedMobile @ [LF] @ wrappedAddress @ [LF]
            @ wrappedDegree
      in escapeText_B rawTextBlock)"

text \<open>
  The command handed to the media tool: the inputs in the order of the \<^verbatim>\<open>.input\<close>
  calls, the stages of \<^verbatim>\<open>.complexFilter\<close> (a plain graph string, or a filter object
  with its name, its options in order, its input and its output label), the list given to
  \<^verbatim>\<open>.outputOptions\<close>, and the output path.
\<close>

datatype optionValue = Str string | Num int

datatype filterStage =
  Graph string
| FilterObject string "(string \<times> optionValue) list" string string

text \<open>The output label of a stage; a plain graph string carries its labels inside.\<close>

definition output_label :: "filterStage \<Rightarrow> string option" where
  "output_label stage =
     (case stage of Graph g \<Rightarrow> None | FilterObject name opts inp out \<Rightarrow> Some out)"

record ffmpegCommand =
  commandInputs :: "string list"
  complexFilter :: "filterStage list"
  outputOptions :: "string list"
  outputPath :: string

text \<open>
  \<^verbatim>\<open>processVideoWithBackground\<close> of \<^verbatim>\<open>server.js\<close>, up to \<^verbatim>\<open>.run()\<close>: the command it
  builds. \<open>fontPath\<close> is the module constant, which depends on the install directory.
  Both paths are strings: the handler, the only caller, passes the stored paths of the two
  files after it has checked that both files are there.
\<close>

definition processVideoWithBackground ::
  "string \<Rightarrow> string \<Rightarrow> string \<Rightarrow> string \<Rightarrow> textData \<Rightarrow> ffmpegCommand" where
  "processVideoWithBackground fontPath videoPath backgroundPath outPath textData =
     \<lparr>commandInputs = [backgroundPath, videoPath],
      complexFilter =
        [Graph ''[0:v]scale=960:720[bg]'',
         Graph ''[1:v]scale=-1:720[vid]'',
         Graph ''[bg][vid]overlay=x=(W-w)/2:y=0[tmp]'',
         FilterObject ''drawtext''
           [(''fontfile'', Str fontPath),
            (''text'', Str (textBlock textData)),
            (''fontsize'', Num 20),
            (''fontcolor'', Str ''white''),
            (''box'', Num 1),
            (''boxcolor'', Str ''black@0.8''),
            (''boxborderw'', Num 20),
            (''x'', Num 50),
            (''y'', Str ''h-text_h''),
            (''line_spacing'', Num 10),
            (''fix_bounds'', Num 1)]
           ''tmp'' ''final''],
      outputOptions = [''-map'', ''[final]'', ''-map'', ''1:a?'', ''-c:a'', ''copy'', ''-y''],
      outputPath = outPath\<rparr>"

text \<open>
  The quoting variant draws a box in a stage of its own. Its handler passes \<^verbatim>\<open>null\<close> as
  \<open>backgroundPath\<close> when no background was sent. \<^verbatim>\<open>.input(backgroundPath)\<close> is the first
  call of the chain, and the library throws on an input that is neither a string nor a
  stream: the promise is then rejected before \<^verbatim>\<open>.complexFilter\<close> and
  \<^verbatim>\<open>.outputOptions\<close> are reached, and no command is built. The message of that error is
  the library's; it is the parameter \<open>inputError\<close>.
\<close>

definition processVideoWithBackground_A ::
  "string \<Rightarrow> string \<Rightarrow> string \<Rightarrow> string option \<Rightarrow> string \<Rightarrow> textData
   \<Rightarrow> string + ffmpegCommand" where
  "processVideoWithBackground_A inputError fontPath videoPath backgroundPath outPath textData =
     (case backgroundPath of
        None \<Rightarrow> Inl inputError
      | Some background \<Rightarrow> Inr
     \<lparr>commandInputs = [background, videoPath],
      complexFilter =
        [Graph ''[0:v]scale=960:720[bg]'',
         Graph ''[1:v]scale=-1:720[vid]'',
         Graph ''[bg][vid]overlay=x=(W-w)/2:y=0[tmp]'',
         FilterObject ''drawbox''
           [(''x'', Num 0),
            (''y'', Str ''h-(h-1000)/2''),
            (''width'', Str ''iw''),
            (''height'', Num 170),
            (''color'', Str ''black@1.0''),
            (''t'', Str ''fill'')]
           ''tmp'' ''boxed'',
         FilterObject ''drawtext''
           [(''fontfile'', Str fontPath),
            (''text'', Str (textBlock_A textData)),
            (''fontsize'', Num 24),
            (''fontcolor'', Str ''white''),
            (''box'', Num 0),
            (''x'', Str ''(w-text_w)/2''),
            (''y'', Str ''h-90''),
            (''line_spacing'', Num 10),
            (''fix_bounds'', Num 1)]
           ''boxed'' ''final''],
      outputOptions = [''-map'', ''[final]'', ''-map'', ''1:a?'', ''-c:a'', ''copy'', ''-y''],
      outputPath = outPath\<rparr>)"

text \<open>
  The system-font variant names the font file itself; a \<^verbatim>\<open>null\<close> background is passed
  and rejected in the same way.
\<close>

definition processVideoWithBackground_B ::
  "string \<Rightarrow> string \<Rightarrow> string option \<Rightarrow> string \<Rightarrow> textData
   \<Rightarrow> string + ffmpegCommand" where
  "processVideoWithBackground_B inputError videoPath backgroundPath outPath textData =
     (case backgroundPath of
        None \<Rightarrow> Inl inputError
      | Some background \<Rightarrow> Inr
     \<lparr>commandInputs = [background, videoPath],
      complexFilter =
        [Graph ''[0:v]scale=960:720[bg]'',
         Graph ''[1:v]scale=-1:720[vid]'',
         Graph ''[bg][vid]overlay=x=(W-w)/2:y=0[tmp]'',
         FilterObject ''drawtext''
           [(''fontfile'', Str ''/usr/share/fonts/truetype/dejavu/DejaVuSans-Bold.ttf''),
            (''text'', Str (textBlock_B textData)),
            (''fontsize'', Num 20),
            (''fontcolor'', Str ''white''),
            (''box'', Num 1),
            (''boxcolor'', Str ''black@0.9''),
            (''boxborderw'', Num 30),
            (''x'', Num 50),
            (''y'', Str ''h-text_h''),
            (''line_spacing'', Num 10),
            (''fix_bounds'', Num 1)]
           ''tmp'' ''final''],
      outputOptions = [''-map'', ''[final]'', ''-map'', ''1:a?'', ''-c:a'', ''copy'', ''-y''],
      outputPath = outPath\<rparr>)"

section \<open>The upload handler\<close>

text \<open>
  The request as the handler's callback sees it, after the multipart middleware has run:
  the error the middleware passes on (its message), the text fields of \<^verbatim>\<open>req.body\<close>,
  and the paths under which the middleware stored the two files (\<open>None\<close> when the part
  was not sent). The file system is the set of paths that exist.
\<close>

record uploadRequest =
  uploadError :: "string option"
  reqBody :: textData
  videoFile :: "string option"
  backgroundFile :: "string option"

type_synonym fileSystem = "string set"

datatype responseBody =
  ErrorBody string
| SuccessBody string string string

record response =
  status :: nat
  body :: responseBody

text \<open>\<^verbatim>\<open>!value\<close> for a form field: true for \<^verbatim>\<open>undefined\<close> and for the empty string.\<close>

definition falsy :: "string option \<Rightarrow> bool" where
  "falsy v = (case v of None \<Rightarrow> True | Some s \<Rightarrow> s = [])"

text \<open>
  \<^verbatim>\<open>fs.unlinkSync(path)\<close>: removes the path; throws when it does not exist. The first
  component is the message of the error thrown, if any.
\<close>

definition unlinkSync :: "string \<Rightarrow> fileSystem \<Rightarrow> string option \<times> fileSystem" where
  "unlinkSync path fs =
     (if path \<in> fs then (None, fs - {path})
      else (Some (''ENOENT: no such file or directory, unlink '' @ [QUOTE] @ path @ [QUOTE]),
            fs))"

text \<open>
  The media tool is external: \<open>run\<close> stands for running the command that
  \<^verbatim>\<open>processVideoWithBackground\<close> has built and awaiting its promise. It gives the message
  of the rejection, if any, and the file system the tool leaves behind. \<open>now\<close> is the decimal text of \<^verbatim>\<open>Date.now()\<close>.
\<close>

type_synonym runner = "ffmpegCommand \<Rightarrow> fileSystem \<Rightarrow> string option \<times> fileSystem"

text \<open>
  The callback of \<^verbatim>\<open>POST /upload\<close> in \<^verbatim>\<open>server.js\<close>. The nesting of the cases is the
  left-to-right evaluation of the \<^verbatim>\<open>||\<close> chain of the validation. An error thrown in the
  \<^verbatim>\<open>try\<close> block, by the tool or by a clean-up, ends in the \<^verbatim>\<open>catch\<close> block.
\<close>

definition upload_handler ::
  "runner \<Rightarrow> string \<Rightarrow> string \<Rightarrow> string \<Rightarrow> uploadRequest \<Rightarrow> fileSystem
   \<Rightarrow> response \<times> fileSystem" where
  "upload_handler run fontPath processedDir now req fs =
     (let required = \<lparr>status = 400, body = ErrorBody ''All fields and files are required.''\<rparr>;
          failed = \<lparr>status = 500, body = ErrorBody ''Video processing failed.''\<rparr>
      in case uploadError req of
        Some message \<Rightarrow> (\<lparr>status = 400, body = ErrorBody message\<rparr>, fs)
      | None \<Rightarrow>
         (case videoFile req of
            None \<Rightarrow> (required, fs)
          | Some videoPath \<Rightarrow>
             (case backgroundFile req of
                None \<Rightarrow> (required, fs)
              | Some bgPath \<Rightarrow>
                 if falsy (doctorName (reqBody req)) \<or> falsy (degree (reqBody req))
                    \<or> falsy (mobile (reqBody req)) \<or> falsy (address (reqBody req))
                 then (required, fs)
                 else
                   (let outputName = ''output_'' @ now @ ''.mp4'';
                        outPath = processedDir @ ''/'' @ outputName
                    in case run (processVideoWithBackground fontPath videoPath bgPath
                                   outPath (reqBody req)) fs of
                         (Some error, fs1) \<Rightarrow> (failed, fs1)
                       | (None, fs1) \<Rightarrow>
                          (case unlinkSync videoPath fs1 of
                             (Some error, fs2) \<Rightarrow> (failed, fs2)
                           | (None, fs2) \<Rightarrow>
                              (case unlinkSync bgPath fs2 of
                                 (Some error, fs3) \<Rightarrow> (failed, fs3)
                               | (None, fs3) \<Rightarrow>
                                  (\<lparr>status = 200,
                                    body = SuccessBody ''Video processed successfully.''
                                             outputName (''/processed/'' @ outputName)\<rparr>,
                                   fs3)))))))"

text \<open>
  The quoting variant. \<^verbatim>\<open>if (file) fs.unlinkSync(file.path)\<close>, and the two clean-ups of
  the validation branch and of the \<^verbatim>\<open>catch\<close> block, video first.
\<close>

definition unlink_if_sent :: "string option \<Rightarrow> fileSystem \<Rightarrow> string option \<times> fileSystem" where
  "unlink_if_sent file fs = (case file of None \<Rightarrow> (None, fs) | Some path \<Rightarrow> unlinkSync path fs)"

definition unlink_uploads :: "uploadRequest \<Rightarrow> fileSystem \<Rightarrow> string option \<times> fileSystem" where
  "unlink_uploads req fs =
     (case unlink_if_sent (videoFile req) fs of
        (Some error, fs1) \<Rightarrow> (Some error, fs1)
      | (None, fs1) \<Rightarrow> unlink_if_sent (backgroundFile req) fs1)"

text \<open>
  The \<^verbatim>\<open>catch\<close> block: it removes the uploads and answers 500 with the message of the
  error caught. An error thrown by its own clean-up leaves the callback, and no response
  is sent (\<open>None\<close>).
\<close>

definition catch_A :: "string \<Rightarrow> uploadRequest \<Rightarrow> fileSystem \<Rightarrow> response option \<times> fileSystem" where
  "catch_A error req fs =
     (case unlink_uploads req fs of
        (Some thrown, fs1) \<Rightarrow> (None, fs1)
      | (None, fs1) \<Rightarrow> (Some \<lparr>status = 500, body = ErrorBody error\<rparr>, fs1))"

text \<open>
  The callback of the quoting variant. A promise rejected while the command is built ends
  in the \<^verbatim>\<open>catch\<close> block like a failure of the tool, without the tool having run.
\<close>

definition upload_handler_A ::
  "runner \<Rightarrow> string \<Rightarrow> string \<Rightarrow> string \<Rightarrow> string \<Rightarrow> uploadRequest \<Rightarrow> fileSystem
   \<Rightarrow> response option \<times> fileSystem" where
  "upload_handler_A run inputError fontPath processedDir now req fs =
     (case uploadError req of
        Some message \<Rightarrow> (Some \<lparr>status = 400, body = ErrorBody message\<rparr>, fs)
      | None \<Rightarrow>
         (case videoFile req of
            None \<Rightarrow> (Some \<lparr>status = 400, body = ErrorBody ''No video file uploaded''\<rparr>, fs)
          | Some videoPath \<Rightarrow>
             if falsy (doctorName (reqBody req)) \<or> falsy (degree (reqBody req))
                \<or> falsy (mobile (reqBody req)) \<or> falsy (address (reqBody req))
             then
               (case unlink_uploads req fs of
                  (Some error, fs1) \<Rightarrow> catch_A error req fs1
                | (None, fs1) \<Rightarrow>
                   (Some \<lparr>status = 400, body = ErrorBody ''All fields are required''\<rparr>, fs1))
             else
               (let safeFilename = ''output_'' @ now @ ''.mp4'';
                    outPath = processedDir @ ''/'' @ safeFilename
                in case processVideoWithBackground_A inputError fontPath videoPath
                          (backgroundFile req) outPath (reqBody req) of
                     Inl error \<Rightarrow> catch_A error req fs
                   | Inr command \<Rightarrow>
                      (case run command fs of
                         (Some error, fs1) \<Rightarrow> catch_A error req fs1
                       | (None, fs1) \<Rightarrow>
                          (case unlink_if_sent (backgroundFile req) fs1 of
                             (Some error, fs2) \<Rightarrow> catch_A error req fs2
                           | (None, fs2) \<Rightarrow>
                              (case unlinkSync videoPath fs2 of
                                 (Some error, fs3) \<Rightarrow> catch_A error req fs3
                               | (None, fs3) \<Rightarrow>
                                  (Some \<lparr>status = 200,
                                         body = SuccessBody ''Video processed successfully''
                                                  safeFilename (''/processed/'' @ safeFilename)\<rparr>,
                                   fs3)))))))"

section \<open>Properties of wrapText\<close>

subsection \<open>split, join and replace\<close>

lemma join_Cons: "join sep (x # xs) = x @ concat (map (\<lambda>w. sep @ w) xs)"
  by (induction xs arbitrary: x) simp_all

lemma join_append:
  "xs \<noteq> [] \<Longrightarrow> ys \<noteq> [] \<Longrightarrow> join sep (xs @ ys) = join sep xs @ sep @ join sep ys"
  by (cases xs; cases ys) (simp_all add: join_Cons)

lemma split_on_not_Nil: "split_on sep t \<noteq> []"
  by (induction t) (auto split: list.splits)

lemma join_split_on: "join [sep] (split_on sep t) = t"
  by (induction t) (auto simp: join_Cons split: list.splits)

lemma replace_all_append:
  "replace_all c r (xs @ ys) = replace_all c r xs @ replace_all c r ys"
  by (simp add: replace_all_def)

lemma replace_all_Nil: "replace_all c r [] = []"
  by (simp add: replace_all_def)

lemma replace_all_Cons:
  "replace_all c r (x # xs) = (if x = c then r else [x]) @ replace_all c r xs"
  by (simp add: replace_all_def)

lemma replace_all_id: "c \<notin> set s \<Longrightarrow> replace_all c r s = s"
  by (induction s) (auto simp: replace_all_def)

subsection \<open>The three loops agree\<close>

lemma wrapText_loop_sum_eq:
  "wrapText_loop_sum m lines cur ws = wrapText_loop m lines cur ws"
  by (induction ws arbitrary: lines cur) simp_all

lemma spec_wrap_loop_eq:
  "spec_wrap_loop m lines cur ws = wrapText_loop m lines cur ws"
  by (induction ws arbitrary: lines cur) (simp_all add: spec_appends_def)

text \<open>
  Claim C3. The wrap that measures \<open>currentLine + " " + nextToken\<close> and the wrap that adds
  \<open>currentLine.length + nextToken.length + 1\<close> return the same output for every input and
  every width, and both are the wrap of the rule "append iff
  \<open>len(currentLine) + 1 + len(token) \<le> maxLineLength\<close>".
\<close>

theorem wrapText_variants_agree:
  "wrapText text maxLength = wrapText_sum text maxLength
   \<and> wrapText text maxLength = spec_wrap text maxLength"
  by (simp add: wrapText_def wrapText_sum_def spec_wrap_def
      wrapText_loop_sum_eq spec_wrap_loop_eq split: list.split)

text \<open>
  Claim C8. Splitting the empty string on spaces gives exactly one empty token, and wrap
  of the empty string returns the empty string, for every width and in every variant.
\<close>

theorem wrapText_empty:
  "split_on SP [] = [[]]
   \<and> wrapText [] maxLength = []
   \<and> wrapText_sum [] maxLength = []"
  by (simp add: wrapText_def wrapText_sum_def)

lemma wrapText_sum_eq: "wrapText_sum t m = wrapText t m"
  by (simp add: wrapText_def wrapText_sum_def wrapText_loop_sum_eq split: list.split)

subsection \<open>Short inputs\<close>

lemma wrapText_loop_fits:
  "int (length (cur @ concat (map (\<lambda>w. [SP] @ w) ws))) \<le> m \<Longrightarrow>
   wrapText_loop m lines cur ws = lines @ [cur @ concat (map (\<lambda>w. [SP] @ w) ws)]"
  by (induction ws arbitrary: cur) simp_all

lemma wrapText_short: "int (length t) \<le> m \<Longrightarrow> wrapText t m = t"
proof -
  assume le: "int (length t) \<le> m"
  obtain w0 ws where sp: "split_on SP t = w0 # ws"
    using split_on_not_Nil [of SP t] by (cases "split_on SP t") auto
  have t: "t = w0 @ concat (map (\<lambda>w. [SP] @ w) ws)"
    using join_split_on [of SP t] by (simp add: sp join_Cons)
  have "wrapText_loop m [] w0 ws = [t]"
    using wrapText_loop_fits [of w0 ws m "[]"] le t by simp
  then show ?thesis by (simp add: wrapText_def sp)
qed

text \<open>
  Claim C6. An input strictly shorter than the wrap width is returned unchanged: no line
  break is inserted.
\<close>

theorem wrapText_short_unchanged:
  assumes "int (length text) < maxLength"
  shows "wrapText text maxLength = text \<and> wrapText_sum text maxLength = text"
  using assms by (simp add: wrapText_sum_eq wrapText_short)

theorem wrapText_short_unchanged_witness:
  "int (length ''Doctor: Jane Doe'') < 30
   \<and> wrapText ''Doctor: Jane Doe'' 30 = ''Doctor: Jane Doe''
   \<and> wrapText_sum ''Doctor: Jane Doe'' 30 = ''Doctor: Jane Doe''"
  using wrapText_short_unchanged [of "''Doctor: Jane Doe''" 30] by simp

subsection \<open>Lines are groups of whole tokens\<close>

lemma wrapText_loop_groups:
  "g \<noteq> [] \<Longrightarrow> [] \<notin> set gs \<Longrightarrow>
   \<exists>gs'. wrapText_loop m (map (join [SP]) gs) (join [SP] g) ws = map (join [SP]) gs'
        \<and> concat gs' = concat gs @ g @ ws \<and> [] \<notin> set gs'"
proof (induction ws arbitrary: g gs)
  case Nil
  have "wrapText_loop m (map (join [SP]) gs) (join [SP] g) [] = map (join [SP]) (gs @ [g])"
    by simp
  moreover have "concat (gs @ [g]) = concat gs @ g @ []" by simp
  moreover have "[] \<notin> set (gs @ [g])" using Nil by simp
  ultimately show ?case by blast
next
  case (Cons w ws)
  show ?case
  proof (cases "int (length (join [SP] g @ [SP] @ w)) \<le> m")
    case True
    have j: "join [SP] g @ [SP] @ w = join [SP] (g @ [w])"
      using Cons.prems(1) by (simp add: join_append)
    have step: "wrapText_loop m (map (join [SP]) gs) (join [SP] g) (w # ws)
        = wrapText_loop m (map (join [SP]) gs) (join [SP] (g @ [w])) ws"
      using True unfolding j [symmetric] by simp
    have "g @ [w] \<noteq> []" by simp
    from Cons.IH [OF this Cons.prems(2)] obtain gs' where
      "wrapText_loop m (map (join [SP]) gs) (join [SP] (g @ [w])) ws = map (join [SP]) gs'"
      "concat gs' = concat gs @ (g @ [w]) @ ws" "[] \<notin> set gs'"
      by blast
    then show ?thesis unfolding step by auto
  next
    case False
    have step: "wrapText_loop m (map (join [SP]) gs) (join [SP] g) (w # ws)
        = wrapText_loop m (map (join [SP]) (gs @ [g])) (join [SP] [w]) ws"
      using False by simp
    have "[w] \<noteq> []" "[] \<notin> set (gs @ [g])" using Cons.prems by simp_all
    from Cons.IH [OF this] obtain gs' where
      "wrapText_loop m (map (join [SP]) (gs @ [g])) (join [SP] [w]) ws = map (join [SP]) gs'"
      "concat gs' = concat (gs @ [g]) @ [w] @ ws" "[] \<notin> set gs'"
      by blast
    then show ?thesis unfolding step by auto
  qed
qed

lemma wrapText_groups:
  "\<exists>groups. concat groups = split_on SP t \<and> [] \<notin> set groups
     \<and> wrapText t m = join [LF] (map (join [SP]) groups)"
proof -
  obtain w0 ws where sp: "split_on SP t = w0 # ws"
    using split_on_not_Nil [of SP t] by (cases "split_on SP t") auto
  obtain gs' where
    "wrapText_loop m (map (join [SP]) []) (join [SP] [w0]) ws = map (join [SP]) gs'"
    "concat gs' = concat [] @ [w0] @ ws" "[] \<notin> set gs'"
    using wrapText_loop_groups [of "[w0]" "[]" m ws] by auto
  then show ?thesis by (auto simp: wrapText_def sp)
qed

text \<open>
  Claim C7. The output lines are the tokens of the input, in order, cut into consecutive
  non-empty groups; each line is its group joined by single spaces, so no line break falls
  inside a token. The first group starts with the first token, whatever its length and
  whatever the width, so the output begins with the first token.
\<close>

theorem wrapText_never_splits_token:
  "\<exists>w0 ws g gs.
     split_on SP text = w0 # ws
     \<and> concat ((w0 # g) # gs) = w0 # ws
     \<and> [] \<notin> set gs
     \<and> wrapText text maxLength = join [LF] (map (join [SP]) ((w0 # g) # gs))
     \<and> wrapText_sum text maxLength = join [LF] (map (join [SP]) ((w0 # g) # gs))
     \<and> prefix w0 (wrapText text maxLength)"
proof -
  obtain groups where gr: "concat groups = split_on SP text" "[] \<notin> set groups"
      "wrapText text maxLength = join [LF] (map (join [SP]) groups)"
    using wrapText_groups by blast
  obtain w0 ws where sp: "split_on SP text = w0 # ws"
    using split_on_not_Nil [of SP "text"] by (cases "split_on SP text") auto
  from gr(1) sp have "groups \<noteq> []" by auto
  then obtain g0 gs where groups: "groups = g0 # gs" by (cases groups) auto
  with gr(2) have "g0 \<noteq> []" by auto
  then obtain x g where g0: "g0 = x # g" by (cases g0) auto
  from gr(1) sp groups g0 have x: "x = w0" by simp
  have "wrapText text maxLength = w0 @ concat (map (\<lambda>w. [SP] @ w) g)
      @ concat (map (\<lambda>l. [LF] @ l) (map (join [SP]) gs))"
    unfolding gr(3) groups g0 x by (simp add: join_Cons)
  then have "prefix w0 (wrapText text maxLength)" by (simp add: prefix_def)
  then show ?thesis
    using gr sp groups g0 x wrapText_sum_eq [of "text" maxLength] by auto
qed

subsection \<open>Line feeds back to spaces\<close>

lemma replace_join_groups:
  "[] \<notin> set gs \<Longrightarrow>
   replace_all LF [SP] (join [LF] (map (join [SP]) gs)) = replace_all LF [SP] (join [SP] (concat gs))"
proof (induction gs)
  case Nil
  show ?case by simp
next
  case (Cons g gs)
  show ?case
  proof (cases gs)
    case Nil
    then show ?thesis by simp
  next
    case (Cons h hs)
    have gne: "g \<noteq> []" using \<open>[] \<notin> set (g # gs)\<close> by auto
    have ne: "concat gs \<noteq> []" using Cons \<open>[] \<notin> set (g # gs)\<close> by auto
    have "join [LF] (map (join [SP]) (g # gs)) = join [SP] g @ [LF] @ join [LF] (map (join [SP]) gs)"
      using Cons by simp
    moreover have "join [SP] (concat (g # gs)) = join [SP] g @ [SP] @ join [SP] (concat gs)"
      using join_append [OF gne ne, of "[SP]"] by simp
    ultimately show ?thesis
      using Cons.IH \<open>[] \<notin> set (g # gs)\<close>
      by (simp add: replace_all_append replace_all_Cons)
  qed
qed

lemma wrapText_replace: "replace_all LF [SP] (wrapText t m) = replace_all LF [SP] t"
proof -
  obtain groups where g: "concat groups = split_on SP t" "[] \<notin> set groups"
      "wrapText t m = join [LF] (map (join [SP]) groups)"
    using wrapText_groups by blast
  show ?thesis using replace_join_groups [OF g(2)] g(1,3) by (simp add: join_split_on)
qed

text \<open>
  Claim C10, as stated: replacing each line feed of the output by a space gives the input
  back. It fails for an input that has a line feed of its own, here the single token
  \<open>a\<newline>b\<close> (a line feed between two letters).
\<close>

theorem wrapText_line_feed_counterexample:
  "replace_all LF [SP] (wrapText [CHR ''a'', LF, CHR ''b''] 30) \<noteq> [CHR ''a'', LF, CHR ''b'']"
  by (simp add: wrapText_def replace_all_def)

text \<open>
  Claim C10, amended: for an input without a line feed, replacing each line feed of the
  output by a space gives the input back exactly, for every width and in every variant.
\<close>

theorem wrapText_replace_line_feeds:
  assumes "LF \<notin> set text"
  shows "replace_all LF [SP] (wrapText text maxLength) = text
         \<and> replace_all LF [SP] (wrapText_sum text maxLength) = text"
  using assms by (simp add: wrapText_sum_eq wrapText_replace replace_all_id)

theorem wrapText_replace_line_feeds_witness:
  "LF \<notin> set ''Address: 12 Long Street Name, Springfield''
   \<and> wrapText ''Address: 12 Long Street Name, Springfield'' 30
       = ''Address: 12 Long Street Name,'' @ [LF] @ ''Springfield''
   \<and> replace_all LF [SP] (wrapText ''Address: 12 Long Street Name, Springfield'' 30)
       = ''Address: 12 Long Street Name, Springfield''"
proof -
  have no_lf: "LF \<notin> set ''Address: 12 Long Street Name, Springfield''"
    by simp
  have out: "wrapText ''Address: 12 Long Street Name, Springfield'' 30
       = ''Address: 12 Long Street Name,'' @ [LF] @ ''Springfield''"
    by (simp add: wrapText_def)
  show ?thesis
    using no_lf out wrapText_replace_line_feeds [OF no_lf, of 30] by blast
qed

section \<open>Properties of escapeText\<close>

lemma escapeText_units: "escapeText s = concat (map (escaped_unit True True) s)"
  by (induction s)
    (simp_all add: escapeText_def escaped_unit_def replace_all_Nil replace_all_Cons
      replace_all_append)

lemma escapeText_B_units: "escapeText_B s = concat (map (escaped_unit False True) s)"
  by (induction s)
    (simp_all add: escapeText_B_def escaped_unit_def replace_all_Nil replace_all_Cons
      replace_all_append)

lemma escapeText_A_units:
  "escapeText_A s = [QUOTE] @ concat (map (escaped_unit False False) s) @ [QUOTE]"
  by (induction s)
    (simp_all add: escapeText_A_def escaped_unit_def replace_all_Nil replace_all_Cons
      replace_all_append)

lemma no_unescaped_plain:
  "c \<noteq> BSL \<Longrightarrow> no_unescaped (c # r) = (c \<noteq> COLON \<and> c \<noteq> QUOTE \<and> no_unescaped r)"
  by (cases r) simp_all

lemma no_unescaped_unit:
  "no_unescaped (escaped_unit p l c @ r) = no_unescaped r"
  by (auto simp add: escaped_unit_def no_unescaped_plain)

lemma no_unescaped_units: "no_unescaped (concat (map (escaped_unit p l) s))"
  by (induction s) (simp_all add: no_unescaped_unit)

text \<open>
  Why the backslash goes first: were the colon replaced before the backslash, the
  backslash inserted for the colon would be doubled, and the colon left bare.
\<close>

lemma backslash_after_colon_reescapes:
  "replace_all BSL [BSL, BSL] (replace_all COLON [BSL, COLON] [COLON]) = [BSL, BSL, COLON]"
  "\<not> no_unescaped [BSL, BSL, COLON]"
  by (simp_all add: replace_all_def)

text \<open>
  Claim C1, as stated: every variant maps a line feed to backslash-n and leaves no
  unescaped single quote. The variant that returns its result between single quotes
  leaves a line feed as it is, and its output begins with a bare single quote.
\<close>

theorem escapeText_A_line_feed_counterexample:
  "escapeText_A [LF] = [QUOTE, LF, QUOTE] \<and> \<not> no_unescaped (escapeText_A [LF])"
  by (simp add: escapeText_A_def replace_all_def)

text \<open>
  Claim C1, amended. With the backslash replaced first, the chain of replacements is the
  unit-by-unit mapping: in \<^verbatim>\<open>server.js\<close> backslash, colon, single quote, line feed,
  comma and full stop are escaped; in the variant without quotes backslash, colon, single
  quote and line feed; and their outputs hold no unescaped backslash, colon or single
  quote. The quoting variant escapes backslash, colon and single quote, leaves a line
  feed unchanged, and returns the mapped text between two single quotes; the text between
  the quotes holds no unescaped backslash, colon or single quote.
\<close>

theorem escapeText_substitutions:
  "escapeText s = concat (map (escaped_unit True True) s)
   \<and> no_unescaped (escapeText s)
   \<and> escapeText_B s = concat (map (escaped_unit False True) s)
   \<and> no_unescaped (escapeText_B s)
   \<and> escapeText_A s = [QUOTE] @ concat (map (escaped_unit False False) s) @ [QUOTE]
   \<and> no_unescaped (concat (map (escaped_unit False False) s))"
  by (simp add: escapeText_units escapeText_B_units escapeText_A_units no_unescaped_units)

lemma unescape_plain: "c \<noteq> BSL \<Longrightarrow> unescape (c # r) = c # unescape r"
  by (cases r) simp_all

lemma unescape_unit: "unescape (escaped_unit p l c @ r) = c # unescape r"
  by (auto simp add: escaped_unit_def unescape_plain)

lemma unescape_units: "unescape (concat (map (escaped_unit p l) s)) = s"
  by (induction s) (simp_all add: unescape_unit)

text \<open>
  Claim C4. Unescaping the output of escape gives the input back, unit for unit, for
  every input (so also for any mix of backslashes, colons and single quotes): escape has
  a left inverse, hence is injective.
\<close>

theorem unescape_escapeText:
  "unescape (escapeText s) = s \<and> unescape (escapeText_B s) = s
   \<and> inj escapeText \<and> inj escapeText_B"
proof -
  have a: "unescape (escapeText t) = t" for t
    by (simp add: escapeText_units unescape_units)
  have b: "unescape (escapeText_B t) = t" for t
    by (simp add: escapeText_B_units unescape_units)
  have "inj escapeText" by (rule inj_on_inverseI [of _ unescape]) (rule a)
  moreover have "inj escapeText_B" by (rule inj_on_inverseI [of _ unescape]) (rule b)
  ultimately show ?thesis using a b by simp
qed

section \<open>Properties of the text block\<close>

text \<open>
  In \<^verbatim>\<open>server.js\<close> and in the width-50 variant the block is, for every four fields, the
  lines \<open>Doctor: name\<close>, \<open>Mobile: mobile\<close>, \<open>Address: address\<close>, \<open>Degree: degree\<close>, each
  wrapped on its own at the variant's width, joined by line feeds in that order, escaped
  as a whole, and put between single quotes.
\<close>

lemma textBlock_quoted:
  "textBlock \<lparr>doctorName = Some name, degree = Some deg, mobile = Some mob, address = Some addr\<rparr>
     = [QUOTE] @
       escapeText (join [LF]
         [wrapText (''Doctor: '' @ name) 30, wrapText (''Mobile: '' @ mob) 30,
          wrapText (''Address: '' @ addr) 30, wrapText (''Degree: '' @ deg) 30])
       @ [QUOTE]"
  "textBlock_A \<lparr>doctorName = Some name, degree = Some deg, mobile = Some mob, address = Some addr\<rparr>
     = [QUOTE] @
       replace_all QUOTE [BSL, QUOTE] (replace_all COLON [BSL, COLON] (replace_all BSL [BSL, BSL]
         (join [LF]
           [wrapText_sum (''Doctor: '' @ name) 50, wrapText_sum (''Mobile: '' @ mob) 50,
            wrapText_sum (''Address: '' @ addr) 50, wrapText_sum (''Degree: '' @ deg) 50])))
       @ [QUOTE]"
  by (simp_all add: textBlock_def textBlock_A_def or_default_def escapeText_A_def)

text \<open>
  The system-font variant builds the same four lines in the same order and escapes them
  as a whole, but nothing puts the result between quotes.
\<close>

lemma textBlock_B_lines:
  "textBlock_B \<lparr>doctorName = Some name, degree = Some deg, mobile = Some mob, address = Some addr\<rparr>
     = escapeText_B (join [LF]
         [wrapText_sum (''Doctor: '' @ name) 30, wrapText_sum (''Mobile: '' @ mob) 30,
          wrapText_sum (''Address: '' @ addr) 30, wrapText_sum (''Degree: '' @ deg) 30])"
  by (simp add: textBlock_B_def or_default_def)

text \<open>
  Claim C2, at the fields Jane Doe, MD, 555-1234, 1 Main St in the system-font variant.
  The claim has the escaped block wrapped in single quotes; the text block of this variant
  is the escaped four lines and nothing more: it begins with the \<open>D\<close> of \<open>Doctor\<close> and
  ends with the \<open>D\<close> of \<open>MD\<close>, where the two other variants have a single quote.
\<close>

theorem textBlock_B_unquoted:
  "textBlock_B \<lparr>doctorName = Some ''Jane Doe'', degree = Some ''MD'',
                 mobile = Some ''555-1234'', address = Some ''1 Main St''\<rparr>
     = escapeText_B (''Doctor: Jane Doe'' @ [LF] @ ''Mobile: 555-1234'' @ [LF]
                     @ ''Address: 1 Main St'' @ [LF] @ ''Degree: MD'')
   \<and> hd (textBlock_B \<lparr>doctorName = Some ''Jane Doe'', degree = Some ''MD'',
                 mobile = Some ''555-1234'', address = Some ''1 Main St''\<rparr>) = CHR ''D''
   \<and> last (textBlock_B \<lparr>doctorName = Some ''Jane Doe'', degree = Some ''MD'',
                 mobile = Some ''555-1234'', address = Some ''1 Main St''\<rparr>) = CHR ''D''
   \<and> hd (textBlock \<lparr>doctorName = Some ''Jane Doe'', degree = Some ''MD'',
                 mobile = Some ''555-1234'', address = Some ''1 Main St''\<rparr>) = QUOTE
   \<and> last (textBlock \<lparr>doctorName = Some ''Jane Doe'', degree = Some ''MD'',
                 mobile = Some ''555-1234'', address = Some ''1 Main St''\<rparr>) = QUOTE"
  by (simp add: textBlock_B_def textBlock_def or_default_def wrapText_sum_eq wrapText_def
      escapeText_B_def escapeText_def replace_all_def)

section \<open>Properties of the media command\<close>

text \<open>
  With a background path, every variant builds a command whose output options are exactly
  \<open>-map [final] -map 1:a? -c:a copy -y\<close> in this order. The label \<open>final\<close> that the first
  mapping names is the output label of the last filter stage, and input 1, whose audio the
  optional mapping \<open>1:a?\<close> names, is the foreground video.
\<close>

lemma command_with_background:
  "outputOptions (processVideoWithBackground fontPath videoPath background outPath textData)
     = [''-map'', ''[final]'', ''-map'', ''1:a?'', ''-c:a'', ''copy'', ''-y'']"
  "commandInputs (processVideoWithBackground fontPath videoPath background outPath textData)
     = [background, videoPath]"
  "output_label (last (complexFilter
      (processVideoWithBackground fontPath videoPath background outPath textData)))
     = Some ''final''"
  by (simp_all add: processVideoWithBackground_def output_label_def)

lemma command_A_with_background:
  "\<exists>command.
     processVideoWithBackground_A inputError fontPath videoPath (Some background) outPath textData
       = Inr command
     \<and> outputOptions command = [''-map'', ''[final]'', ''-map'', ''1:a?'', ''-c:a'', ''copy'', ''-y'']
     \<and> commandInputs command = [background, videoPath]
     \<and> output_label (last (complexFilter command)) = Some ''final''"
  by (simp add: processVideoWithBackground_A_def output_label_def)

lemma command_B_with_background:
  "\<exists>command.
     processVideoWithBackground_B inputError videoPath (Some background) outPath textData
       = Inr command
     \<and> outputOptions command = [''-map'', ''[final]'', ''-map'', ''1:a?'', ''-c:a'', ''copy'', ''-y'']
     \<and> commandInputs command = [background, videoPath]
     \<and> output_label (last (complexFilter command)) = Some ''final''"
  by (simp add: processVideoWithBackground_B_def output_label_def)

text \<open>
  Claim C9, at a job without a background in the two variants whose handler accepts such
  a request. The claim gives every composition job the option list above. For the request
  with a stored video, all four fields and no background part, the handler of the
  width-50 variant passes \<^verbatim>\<open>null\<close> as the background path: the promise is rejected at the
  first \<^verbatim>\<open>.input\<close> call, no output options are generated, the tool is never run, and the
  request is answered 500 after the stored video has been removed. The system-font
  variant rejects in the same way.
\<close>

theorem no_background_no_command:
  "processVideoWithBackground_A inputError fontPath ''uploads/1_clip.mp4'' None
     ''processed/output_1.mp4''
     \<lparr>doctorName = Some ''Jane Doe'', degree = Some ''MD'',
      mobile = Some ''555-1234'', address = Some ''1 Main St''\<rparr>
     = Inl inputError
   \<and> processVideoWithBackground_B inputError ''uploads/1_clip.mp4'' None
     ''processed/output_1.mp4''
     \<lparr>doctorName = Some ''Jane Doe'', degree = Some ''MD'',
      mobile = Some ''555-1234'', address = Some ''1 Main St''\<rparr>
     = Inl inputError
   \<and> upload_handler_A run inputError fontPath ''processed'' ''1''
     \<lparr>uploadError = None,
      reqBody = \<lparr>doctorName = Some ''Jane Doe'', degree = Some ''MD'',
                 mobile = Some ''555-1234'', address = Some ''1 Main St''\<rparr>,
      videoFile = Some ''uploads/1_clip.mp4'',
      backgroundFile = None\<rparr>
     {''uploads/1_clip.mp4''}
     = (Some \<lparr>status = 500, body = ErrorBody inputError\<rparr>, {})"
  by (simp add: processVideoWithBackground_A_def processVideoWithBackground_B_def
      upload_handler_A_def falsy_def catch_A_def unlink_uploads_def unlink_if_sent_def
      unlinkSync_def)

section \<open>Properties of the upload handler\<close>

text \<open>
  In \<^verbatim>\<open>server.js\<close> a request that passed the middleware but lacks a file or has an empty
  or absent text field is answered 400, and the file system is left exactly as it was:
  nothing is written, and nothing is removed.
\<close>

lemma upload_handler_validation:
  assumes "uploadError req = None"
    and "videoFile req = None \<or> backgroundFile req = None
         \<or> falsy (doctorName (reqBody req)) \<or> falsy (degree (reqBody req))
         \<or> falsy (mobile (reqBody req)) \<or> falsy (address (reqBody req))"
  shows "upload_handler run fontPath processedDir now req fs
         = (\<lparr>status = 400, body = ErrorBody ''All fields and files are required.''\<rparr>, fs)"
  using assms by (auto simp add: upload_handler_def Let_def split: option.splits)

text \<open>
  The width-50 variant removes both stored files before it answers 400 for a missing text
  field; when the video is missing it answers 400 and removes nothing.
\<close>

lemma upload_handler_A_validation:
  assumes "uploadError req = None"
    and "videoFile req = Some v" and "backgroundFile req = Some b" and "v \<noteq> b"
    and "v \<in> fs" and "b \<in> fs"
    and "falsy (doctorName (reqBody req)) \<or> falsy (degree (reqBody req))
         \<or> falsy (mobile (reqBody req)) \<or> falsy (address (reqBody req))"
  shows "upload_handler_A run inputError fontPath processedDir now req fs
         = (Some \<lparr>status = 400, body = ErrorBody ''All fields are required''\<rparr>, fs - {v, b})"
  using assms
  by (auto simp add: upload_handler_A_def unlink_uploads_def unlink_if_sent_def unlinkSync_def)

lemma upload_handler_A_no_video:
  assumes "uploadError req = None" and "videoFile req = None"
  shows "upload_handler_A run inputError fontPath processedDir now req fs
         = (Some \<lparr>status = 400, body = ErrorBody ''No video file uploaded''\<rparr>, fs)"
  using assms by (simp add: upload_handler_A_def)

lemma upload_handler_A_removes_uploads:
  "upload_handler_A run inputError fontPath processedDir now
     \<lparr>uploadError = None,
      reqBody = \<lparr>doctorName = Some ''Jane Doe'', degree = Some ''MD'',
                 mobile = Some ''555-1234'', address = None\<rparr>,
      videoFile = Some ''uploads/1_clip.mp4'',
      backgroundFile = Some ''uploads/1_bg.png''\<rparr>
     {''uploads/1_clip.mp4'', ''uploads/1_bg.png''}
   = (Some \<lparr>status = 400, body = ErrorBody ''All fields are required''\<rparr>, {})"
  by (simp add: upload_handler_A_def falsy_def unlink_uploads_def unlink_if_sent_def
      unlinkSync_def)

text \<open>
  Claim C5, at a request with both files stored and no \<open>address\<close> field. The handler of
  \<^verbatim>\<open>server.js\<close> answers 400 with an error payload and writes nothing, as the claim says,
  but both uploaded files are still there afterwards: the claim's removal of the uploads
  does not happen.
\<close>

theorem upload_handler_keeps_uploads:
  "upload_handler run fontPath processedDir now
     \<lparr>uploadError = None,
      reqBody = \<lparr>doctorName = Some ''Jane Doe'', degree = Some ''MD'',
                 mobile = Some ''555-1234'', address = None\<rparr>,
      videoFile = Some ''uploads/1_clip.mp4'',
      backgroundFile = Some ''uploads/1_bg.png''\<rparr>
     {''uploads/1_clip.mp4'', ''uploads/1_bg.png''}
   = (\<lparr>status = 400, body = ErrorBody ''All fields and files are required.''\<rparr>,
      {''uploads/1_clip.mp4'', ''uploads/1_bg.png''})"
  by (simp add: upload_handler_def falsy_def)

end
